theory Spec2Isabelle
  imports Complex_Main
begin

section \<open>Portable air quality monitor: a model of \<open>code.py\<close>\<close>

text \<open>
  The program is a single CircuitPython script.  Its helper functions
  (\<open>sample_aq_sensor\<close>, \<open>flash_status\<close>, \<open>update_co2_image_frame\<close>,
  \<open>update_aqi_image_frame\<close>) and the alarm and battery steps of the primary
  process loop are modelled as functions on an explicit program state.
  Python exceptions are values of type \<open>error\<close>; a function that can raise
  returns \<open>error + 'a\<close> with \<open>Inl\<close> for the exception.  Python floats are
  modelled by exact reals.
\<close>

subsection \<open>Exceptions\<close>

datatype error = ZeroDivisionError | NameError | IndexError | ValueError

subsection \<open>Trend charts\<close>

text \<open>
  \<open>co2_trend_chart\<close> and \<open>aqi_trend_chart\<close> are Python lists.  Both update
  functions end with the same two statements,
  \<^verbatim>\<open>chart.pop(0)\<close> and \<^verbatim>\<open>chart.append(norm)\<close>;
  \<open>pop(0)\<close> on an empty list raises \<open>IndexError\<close>.
\<close>

definition trend_push :: "real \<Rightarrow> real list \<Rightarrow> error + real list" where
  "trend_push v chart =
     (case chart of
        [] \<Rightarrow> Inl IndexError
      | oldest # rest \<Rightarrow> Inr (rest @ [v]))"

text \<open>A sequence of pushes, one per update cycle, in arrival order.\<close>

fun trend_pushes :: "real list \<Rightarrow> real list \<Rightarrow> error + real list" where
  "trend_pushes [] chart = Inr chart"
| "trend_pushes (v # vs) chart =
     (case trend_push v chart of
        Inl e \<Rightarrow> Inl e
      | Inr chart' \<Rightarrow> trend_pushes vs chart')"

subsection \<open>Python numerics and text\<close>

text \<open>
  \<open>int(x)\<close> truncates towards zero; \<open>round(x)\<close> rounds to the nearest
  integer, ties to the even one; \<open>round(x, 2)\<close> does the same at the second
  decimal.
\<close>

definition py_int :: "real \<Rightarrow> int" where
  "py_int x = (if 0 \<le> x then \<lfloor>x\<rfloor> else \<lceil>x\<rceil>)"

definition py_round :: "real \<Rightarrow> int" where
  "py_round x =
     (let f = \<lfloor>x\<rfloor>; r = x - of_int f in
      if r < 1 / 2 then f
      else if 1 / 2 < r then f + 1
      else if even f then f else f + 1)"


text \<open>
  \<open>str(n)\<close> of an integer is its decimal numeral.  \<open>float(s)\<close> is modelled on
  the texts the program stores in a value label, the decimal numerals of
  integers; on any other text the model reports \<open>ValueError\<close>, which is what
  Python does for the blank label \<^verbatim>\<open>" "\<close> and the placeholder \<^verbatim>\<open>"---"\<close>.
\<close>

definition digit_char :: "nat \<Rightarrow> char" where
  "digit_char d = char_of (48 + d)"

fun str_nat :: "nat \<Rightarrow> string" where
  "str_nat n =
     (if n < 10 then [digit_char n]
      else str_nat (n div 10) @ [digit_char (n mod 10)])"

declare str_nat.simps [simp del]

definition str_int :: "int \<Rightarrow> string" where
  "str_int i = (if i < 0 then CHR ''-'' # str_nat (nat (- i)) else str_nat (nat i))"

definition is_digit :: "char \<Rightarrow> bool" where
  "is_digit c = (48 \<le> (of_char c :: nat) \<and> (of_char c :: nat) \<le> 57)"

definition digits_val :: "string \<Rightarrow> nat" where
  "digits_val s = foldl (\<lambda>a c. 10 * a + (of_char c - 48)) 0 s"

definition py_float :: "string \<Rightarrow> error + real" where
  "py_float s =
     (if s \<noteq> [] \<and> hd s = CHR ''-'' then
        (if tl s \<noteq> [] \<and> list_all is_digit (tl s)
         then Inr (- real (digits_val (tl s))) else Inl ValueError)
      else
        (if s \<noteq> [] \<and> list_all is_digit s
         then Inr (real (digits_val s)) else Inl ValueError))"

subsection \<open>Static configuration and external collaborators\<close>

text \<open>
  The colour constants come from \<open>air_mon_config\<close>; \<open>Hex\<close> stands for any
  other colour value a classifier may return.
\<close>

datatype color = BLACK | WHITE | RED | YELLOW | GRAY | PURPLE | BLUE | CYAN | Hex nat

text \<open>
  What the script takes from the board, from \<open>air_mon_config\<close> and from the
  \<open>cedargrove_unit_converter\<close> library is a parameter of the model.  The two
  classifiers return the tuple \<open>(valid, value, colour, label)\<close>.
\<close>

record platform =
  co2_sensor_exists :: bool
  aqi_sensor_exists :: bool
  has_speaker :: bool
  has_neopixel :: bool
  has_battery_mon :: bool
  HEIGHT :: int
  CO2_ALARM :: "int \<times> color \<times> string"
  interpret_text :: "bool \<Rightarrow> string \<Rightarrow> string"
  co2_ppm_to_quality :: "int \<Rightarrow> bool \<times> int \<times> color \<times> string"
  concentration_to_aqi :: "real \<Rightarrow> bool \<times> int \<times> color \<times> string"
  celsius_to_fahrenheit :: "int \<Rightarrow> real"

text \<open>
  The sensors and the clock are oracles: \<open>monotonic e k\<close> is what the
  \<open>k\<close>-th call of \<open>time.monotonic()\<close> returns, \<open>data_available e k\<close> what
  the \<open>k\<close>-th read of \<open>scd.data_available\<close> returns, the three measurement
  oracles what the SCD-30 delivers after \<open>k\<close> such reads, and
  \<open>pm25_read e k\<close> the \<open>pm25 env\<close> field of the \<open>k\<close>-th \<open>pm25.read()\<close>,
  or \<open>None\<close> when that call raises \<open>RuntimeError\<close>.
\<close>

record env =
  monotonic :: "nat \<Rightarrow> real"
  data_available :: "nat \<Rightarrow> bool"
  scd_CO2 :: "nat \<Rightarrow> real"
  scd_relative_humidity :: "nat \<Rightarrow> real"
  scd_temperature :: "nat \<Rightarrow> real"
  pm25_read :: "nat \<Rightarrow> int option"

subsection \<open>Program state\<close>

datatype event = Print string | Sleep real | Status string | Tone nat real | Pixels color

record rect =
  rect_y :: int
  rect_fill :: "color option"

text \<open>
  The module-level variables the modelled functions read or write: the
  counters of oracle calls made so far, the chronological log of output
  effects, the mutable settings, and the attributes of the display objects.
\<close>

record world =
  ticks :: nat
  polls :: nat
  reads :: nat
  trace :: "event list"
  TEMP_UNIT :: string
  TRANSLATE :: bool
  watchdog_fill :: "color option"
  status_color :: "color option"
  status_text :: string
  co2_qual_color :: "color option"
  co2_qual_text :: string
  co2_value_text :: string
  co2_humid_text :: string
  co2_temp_text :: string
  co2_alarm_text :: string
  co2_pointer_fill :: "color option"
  co2_pointer_y :: int
  co2_pointer_shadow_y :: int
  co2_trend_chart :: "real list"
  co2_trend_group :: "rect list"
  aqi_qual_color :: "color option"
  aqi_qual_text :: string
  aqi_value_text :: string
  aqi_pointer_fill :: "color option"
  aqi_pointer_y :: int
  aqi_pointer_shadow_y :: int
  aqi_trend_chart :: "real list"
  aqi_trend_group :: "rect list"

subsection \<open>Helpers\<close>

definition play_tone :: "platform \<Rightarrow> nat \<Rightarrow> real \<Rightarrow> world \<Rightarrow> world" where
  "play_tone d freq duration w =
     (if has_speaker d then w\<lparr>trace := trace w @ [Tone freq duration]\<rparr> else w)"

definition flash_status :: "string \<Rightarrow> real \<Rightarrow> world \<Rightarrow> world" where
  "flash_status text duration w =
     w\<lparr>status_color := Some BLACK, status_text := [],
       trace := trace w @ [Status text, Sleep duration, Sleep duration]\<rparr>"

text \<open>
  The bar-drawing loop \<^verbatim>\<open>for i in range(0, len(chart))\<close>: bar
  \<open>len(chart) - i - 1\<close> of the display group gets the height of point \<open>i\<close>.
  Indexing the group out of range raises \<open>IndexError\<close>.  The arguments are
  \<open>len(chart)\<close>, the index \<open>i\<close> and the points from \<open>i\<close> on.
\<close>

fun draw_trend :: "int \<Rightarrow> color \<Rightarrow> nat \<Rightarrow> nat \<Rightarrow> real list \<Rightarrow> rect list \<Rightarrow> error + rect list" where
  "draw_trend H c n i [] bars = Inr bars"
| "draw_trend H c n i (p # ps) bars =
     (if n - i - 1 < length bars
      then draw_trend H c n (i + 1) ps
             (bars[n - i - 1 := \<lparr>rect_y = H - py_int (p * real_of_int H) + 1 - 3,
                                  rect_fill = Some c\<rparr>])
      else Inl IndexError)"

subsection \<open>\<open>sample_aq_sensor\<close>\<close>

text \<open>
  The sampling loop.  Each evaluation of the loop condition calls
  \<open>time.monotonic()\<close>.  A successful read appends the sample and sleeps one
  second; a \<open>RuntimeError\<close> prints a message and continues with the next
  evaluation of the condition.  The loop need not terminate (the clock is an
  oracle), so the result is an option and \<open>None\<close> means that it never
  returns.
\<close>

partial_function (option) sample_loop ::
  "env \<Rightarrow> real \<Rightarrow> int list \<Rightarrow> world \<Rightarrow> (int list \<times> world) option" where
  "sample_loop e time_start aq_samples w =
     (if monotonic e (ticks w) - time_start \<le> 2.3 then
        (case pm25_read e (reads w) of
           Some v \<Rightarrow>
             sample_loop e time_start (aq_samples @ [v])
               (w\<lparr>ticks := ticks w + 1, reads := reads w + 1,
                  trace := trace w @ [Sleep 1]\<rparr>)
         | None \<Rightarrow>
             sample_loop e time_start aq_samples
               (w\<lparr>ticks := ticks w + 1, reads := reads w + 1,
                  trace := trace w @ [Print ''Unable to read from sensor, retrying...'']\<rparr>))
      else Some (aq_samples, w\<lparr>ticks := ticks w + 1\<rparr>))"

declare sample_loop.simps [code]

text \<open>
  What one iteration of the loop leaves in the trace, as a function of the
  index of its read: the one-second sleep after a sample, or the message
  printed for a failed read.
\<close>

definition sample_event :: "env \<Rightarrow> nat \<Rightarrow> event" where
  "sample_event e r =
     (case pm25_read e r of
        Some v \<Rightarrow> Sleep 1
      | None \<Rightarrow> Print ''Unable to read from sensor, retrying...'')"

text \<open>
  After the loop the samples are summed and the sum is divided by their
  number with Python's true division, which raises \<open>ZeroDivisionError\<close>
  when the list is empty.
\<close>

definition average :: "int list \<Rightarrow> error + real" where
  "average aq_samples =
     (let aq_reading = foldl (+) 0 aq_samples in
      if length aq_samples = 0 then Inl ZeroDivisionError
      else Inr (real_of_int aq_reading / real (length aq_samples)))"

definition sample_aq_sensor :: "env \<Rightarrow> world \<Rightarrow> (error + real \<times> world) option" where
  "sample_aq_sensor e w =
     (let time_start = monotonic e (ticks w) in
      case sample_loop e time_start [] (w\<lparr>ticks := ticks w + 1\<rparr>) of
        None \<Rightarrow> None
      | Some (aq_samples, w') \<Rightarrow>
          Some (case average aq_samples of
                  Inl err \<Rightarrow> Inl err
                | Inr aq_reading \<Rightarrow> Inr (aq_reading, w')))"

subsection \<open>\<open>update_co2_image_frame\<close>\<close>

text \<open>
  The wait loop of lines 181 to 187.  Its condition is the short-circuit
  conjunction \<^verbatim>\<open>blocking and (not scd.data_available) and (t0 - time.monotonic() < wait_time)\<close>:
  the sensor is polled only when \<open>blocking\<close> holds and the clock is read only
  when no data is available.  The body turns the watchdog red and flashes
  the warm-up status.  \<open>None\<close> means that the loop never exits.
\<close>

partial_function (option) co2_wait ::
  "platform \<Rightarrow> env \<Rightarrow> bool \<Rightarrow> real \<Rightarrow> real \<Rightarrow> world \<Rightarrow> world option" where
  "co2_wait d e blocking wait_time t0 w =
     (if \<not> blocking then Some w
      else if data_available e (polls w) then Some (w\<lparr>polls := polls w + 1\<rparr>)
      else if t0 - monotonic e (ticks w) < wait_time then
        co2_wait d e blocking wait_time t0
          (flash_status (interpret_text d (TRANSLATE w) ''WARMUP'') 0.5
             (w\<lparr>polls := polls w + 1, ticks := ticks w + 1,
                watchdog_fill := Some RED\<rparr>))
      else Some (w\<lparr>polls := polls w + 1, ticks := ticks w + 1\<rparr>))"

declare co2_wait.simps [code]

text \<open>
  The body of \<^verbatim>\<open>if scd.data_available:\<close>, lines 190 to 234.  In the
  out-of-range branch the statement
  \<^verbatim>\<open>co2_poointer_shadow.y = co2_pointer.y = 0\<close> assigns its targets from
  left to right, and the first target names a global that is defined
  nowhere: the statement raises \<open>NameError\<close> before any target is assigned.
  Nothing catches the exception, the script ends, and the model keeps no
  state for it.
\<close>

definition co2_acquire :: "platform \<Rightarrow> env \<Rightarrow> world \<Rightarrow> error + bool \<times> world" where
  "co2_acquire d e w =
     (let w1 = w\<lparr>watchdog_fill := Some YELLOW\<rparr>;
          sensor_co2 = py_round (scd_CO2 e (polls w));
          (sensor_data_valid, sensor_co2, qual_color, label) =
             co2_ppm_to_quality d sensor_co2;
          w2 = w1\<lparr>co2_qual_color := Some qual_color\<rparr>;
          sensor_co2_norm = real_of_int sensor_co2 / 6000;
          sensor_rh = py_round (scd_relative_humidity e (polls w));
          sensor_temp = py_round (scd_temperature e (polls w));
          sensor_temp =
            (if TEMP_UNIT w = ''F''
             then py_round (celsius_to_fahrenheit d sensor_temp) else sensor_temp)
      in
      if sensor_co2 < 6000 then
        (let w3 = w2\<lparr>co2_pointer_fill := Some GRAY,
                      co2_pointer_y :=
                        HEIGHT d - py_int (sensor_co2_norm * real_of_int (HEIGHT d)) - 3\<rparr>;
             w4 = w3\<lparr>co2_pointer_shadow_y := co2_pointer_y w3\<rparr>;
             w5 = w4\<lparr>co2_qual_text := interpret_text d (TRANSLATE w) label,
                      co2_value_text := str_int sensor_co2,
                      co2_humid_text := str_int sensor_rh,
                      co2_temp_text := str_int sensor_temp,
                      co2_alarm_text := str_int (fst (CO2_ALARM d))\<rparr>
         in
         case draw_trend (HEIGHT d) GRAY (length (co2_trend_chart w5)) 0
                (co2_trend_chart w5) (co2_trend_group w5) of
           Inl err \<Rightarrow> Inl err
         | Inr bars \<Rightarrow>
             (case trend_push sensor_co2_norm (co2_trend_chart w5) of
                Inl err \<Rightarrow> Inl err
              | Inr chart \<Rightarrow>
                  Inr (sensor_data_valid,
                       w5\<lparr>co2_trend_group := bars, co2_trend_chart := chart\<rparr>)))
      else Inl NameError)"

definition update_co2_image_frame ::
  "platform \<Rightarrow> env \<Rightarrow> bool \<Rightarrow> real \<Rightarrow> world \<Rightarrow> (error + bool \<times> world) option" where
  "update_co2_image_frame d e blocking wait_time w =
     (if co2_sensor_exists d then
        (let t0 = monotonic e (ticks w) in
         case co2_wait d e blocking wait_time t0 (w\<lparr>ticks := ticks w + 1\<rparr>) of
           None \<Rightarrow> None
         | Some w1 \<Rightarrow>
             Some (if data_available e (polls w1)
                   then co2_acquire d e (w1\<lparr>polls := polls w1 + 1\<rparr>)
                   else Inr (True, w1\<lparr>polls := polls w1 + 1\<rparr>)))
      else Some (Inr (True, w)))"

subsection \<open>\<open>update_aqi_image_frame\<close>\<close>

text \<open>Lines 251 to 278, after the sample was taken.\<close>

definition aqi_acquire :: "platform \<Rightarrow> real \<Rightarrow> world \<Rightarrow> error + bool \<times> world" where
  "aqi_acquire d sensor_pm25 w =
     (let sensor_data_valid = True;
          (flag, sensor_aqi, qual_color, label) = concentration_to_aqi d sensor_pm25;
          w1 = w\<lparr>aqi_qual_color := Some qual_color\<rparr>;
          sensor_aqi_norm = real_of_int sensor_aqi / 500;
          w2 = (if sensor_aqi < 500 then
                  (let w' = w1\<lparr>aqi_pointer_fill := Some PURPLE,
                                aqi_pointer_y :=
                                  HEIGHT d - py_int (sensor_aqi_norm * real_of_int (HEIGHT d)) - 3\<rparr>
                   in w'\<lparr>aqi_pointer_shadow_y := aqi_pointer_y w'\<rparr>)
                else
                  flash_status (interpret_text d (TRANSLATE w) ''OVERRANGE'') 0.75
                    (w1\<lparr>aqi_pointer_fill := Some RED,
                        aqi_pointer_shadow_y := 0, aqi_pointer_y := 0\<rparr>));
          w3 = w2\<lparr>aqi_qual_text := interpret_text d (TRANSLATE w) label,
                   aqi_value_text := str_int sensor_aqi\<rparr>
      in
      case draw_trend (HEIGHT d) PURPLE (length (aqi_trend_chart w3)) 0
             (aqi_trend_chart w3) (aqi_trend_group w3) of
        Inl err \<Rightarrow> Inl err
      | Inr bars \<Rightarrow>
          (case trend_push sensor_aqi_norm (aqi_trend_chart w3) of
             Inl err \<Rightarrow> Inl err
           | Inr chart \<Rightarrow>
               Inr (sensor_data_valid,
                    w3\<lparr>aqi_trend_group := bars, aqi_trend_chart := chart\<rparr>)))"

definition update_aqi_image_frame ::
  "platform \<Rightarrow> env \<Rightarrow> bool \<Rightarrow> real \<Rightarrow> world \<Rightarrow> (error + bool \<times> world) option" where
  "update_aqi_image_frame d e blocking wait_time w =
     (if aqi_sensor_exists d then
        (case sample_aq_sensor e w of
           None \<Rightarrow> None
         | Some (Inl err) \<Rightarrow> Some (Inl err)
         | Some (Inr (sensor_pm25, w1)) \<Rightarrow> Some (aqi_acquire d sensor_pm25 w1))
      else Some (Inr (True, w)))"

subsection \<open>The alarm and battery steps of the primary process loop\<close>

text \<open>
  Lines 626 to 633: the alarm condition is read from the text of the CO2
  value label; \<open>float\<close> is only evaluated when the text is not the blank
  \<^verbatim>\<open>" "\<close>.
\<close>

definition co2_alarm_triggered :: "platform \<Rightarrow> world \<Rightarrow> error + bool" where
  "co2_alarm_triggered d w =
     (if co2_sensor_exists d then
        (if co2_value_text w \<noteq> '' '' then
           (case py_float (co2_value_text w) of
              Inl err \<Rightarrow> Inl err
            | Inr v \<Rightarrow> Inr (real_of_int (fst (CO2_ALARM d)) \<le> v))
         else Inr False)
      else Inr False)"

definition co2_alarm_step :: "platform \<Rightarrow> world \<Rightarrow> error + world" where
  "co2_alarm_step d w =
     (case co2_alarm_triggered d w of
        Inl err \<Rightarrow> Inl err
      | Inr triggered \<Rightarrow>
          (if triggered then
             (let w1 = flash_status (interpret_text d (TRANSLATE w) ''ALARM'') 0.75 w;
                  w2 = (if has_neopixel d then w1\<lparr>trace := trace w1 @ [Pixels RED]\<rparr> else w1);
                  w3 = play_tone d 880 0.015 w2
              in Inr (if has_neopixel d then w3\<lparr>trace := trace w3 @ [Pixels BLACK]\<rparr> else w3))
           else Inr w))"




subsection \<open>The normalisation the specification states\<close>


subsection \<open>Concrete platforms, environments and states\<close>

text \<open>
  The state the module-level code builds before the first acquisition
  (lines 282 to 555), for a display with \<open>n\<close> trend points: both charts are
  filled with \<open>HEIGHT\<close>, the value labels are blank when their sensor exists.
\<close>

definition init_world :: "platform \<Rightarrow> string \<Rightarrow> bool \<Rightarrow> nat \<Rightarrow> world" where
  "init_world d temp_unit translate n =
     \<lparr>ticks = 0, polls = 0, reads = 0, trace = [],
      TEMP_UNIT = temp_unit, TRANSLATE = translate,
      watchdog_fill = None, status_color = None, status_text = '' '',
      co2_qual_color = None, co2_qual_text = '' '',
      co2_value_text = (if co2_sensor_exists d then '' '' else ''---''),
      co2_humid_text = (if co2_sensor_exists d then '' '' else ''--''),
      co2_temp_text = (if co2_sensor_exists d then '' '' else ''--''),
      co2_alarm_text =
        (if co2_sensor_exists d then str_int (fst (CO2_ALARM d)) else ''----''),
      co2_pointer_fill = None, co2_pointer_y = HEIGHT d + 2,
      co2_pointer_shadow_y = HEIGHT d + 2,
      co2_trend_chart = replicate n (real_of_int (HEIGHT d)),
      co2_trend_group = replicate n \<lparr>rect_y = HEIGHT d - 6, rect_fill = None\<rparr>,
      aqi_qual_color = None, aqi_qual_text = '' '',
      aqi_value_text = (if aqi_sensor_exists d then '' '' else ''---''),
      aqi_pointer_fill = Some CYAN, aqi_pointer_y = HEIGHT d + 2,
      aqi_pointer_shadow_y = HEIGHT d + 2,
      aqi_trend_chart = replicate n (real_of_int (HEIGHT d)),
      aqi_trend_group = replicate n \<lparr>rect_y = HEIGHT d - 6, rect_fill = None\<rparr>\<rparr>"

text \<open>
  A board with both sensors, an alarm threshold of 2500 ppm, and classifiers
  that hand the measured value through: the CO2 classifier flags readings
  below 100 ppm as invalid, the particulate classifier reports twice the
  rounded concentration as index.
\<close>

definition demo_platform :: platform where
  "demo_platform =
     \<lparr>co2_sensor_exists = True, aqi_sensor_exists = True, has_speaker = True,
      has_neopixel = True, has_battery_mon = True, HEIGHT = 128,
      CO2_ALARM = (2500, RED, ''ALARM''),
      interpret_text = (\<lambda>translate key. key),
      co2_ppm_to_quality = (\<lambda>ppm. (100 \<le> ppm, ppm, YELLOW, ''POOR'')),
      concentration_to_aqi = (\<lambda>conc. (True, 2 * py_round conc, PURPLE, ''MODERATE'')),
      celsius_to_fahrenheit = (\<lambda>c. real_of_int c * 9 / 5 + 32)\<rparr>"

text \<open>
  An environment with the given clock in which the SCD-30 never has data
  and every particulate read fails.
\<close>

definition no_data_env :: "(nat \<Rightarrow> real) \<Rightarrow> env" where
  "no_data_env clock =
     \<lparr>monotonic = clock, data_available = (\<lambda>k. False),
      scd_CO2 = (\<lambda>k. 0), scd_relative_humidity = (\<lambda>k. 0),
      scd_temperature = (\<lambda>k. 0), pm25_read = (\<lambda>k. None)\<rparr>"

text \<open>
  An environment in which the SCD-30 always has data and reports \<open>ppm\<close>.
  The particulate reads deliver 10, a failure, 20 and 30 (then \<open>10 * k\<close>).
  The clock reads 0 at the first two calls, 1 at the next two, and then
  advances one second per call: a failed read is followed by the next
  clock reading at once, a successful one after the one-second sleep.
\<close>

definition demo_env :: "real \<Rightarrow> env" where
  "demo_env ppm =
     \<lparr>monotonic = (\<lambda>k. if k \<le> 1 then 0 else if k \<le> 3 then 1 else real k - 2),
      data_available = (\<lambda>k. True),
      scd_CO2 = (\<lambda>k. ppm), scd_relative_humidity = (\<lambda>k. 45.2),
      scd_temperature = (\<lambda>k. 21.6),
      pm25_read =
        (\<lambda>k. if k = 1 then None else if k = 0 then Some 10 else Some (10 * int k))\<rparr>"

subsection \<open>Facts about trend charts\<close>

lemma trend_push_nonempty:
  "chart \<noteq> [] \<Longrightarrow> trend_push v chart = Inr (tl chart @ [v])"
  by (cases chart) (simp_all add: trend_push_def)

lemma trend_pushes_drop:
  "chart \<noteq> [] \<Longrightarrow> trend_pushes vs chart = Inr (drop (length vs) (chart @ vs))"
proof (induction vs arbitrary: chart)
  case Nil
  then show ?case by simp
next
  case (Cons v vs)
  from Cons.prems obtain x xs where c: "chart = x # xs" by (cases chart) auto
  have "trend_pushes (v # vs) chart = trend_pushes vs (xs @ [v])"
    by (simp add: c trend_push_def)
  also have "\<dots> = Inr (drop (length vs) ((xs @ [v]) @ vs))"
    by (rule Cons.IH) simp
  finally show ?case by (simp add: c)
qed

subsection \<open>Facts about the helpers\<close>

lemma draw_trend_ok:
  "i + length ps = n \<Longrightarrow> n \<le> length bars \<Longrightarrow>
     \<exists>bars'. draw_trend H c n i ps bars = Inr bars' \<and> length bars' = length bars"
proof (induction ps arbitrary: i bars)
  case Nil
  then show ?case by simp
next
  case (Cons p ps)
  let ?bars = "bars[n - i - 1 := \<lparr>rect_y = H - py_int (p * real_of_int H) + 1 - 3,
                                   rect_fill = Some c\<rparr>]"
  from Cons.prems have "n - i - 1 < length bars" by simp
  moreover have "\<exists>bars'. draw_trend H c n (i + 1) ps ?bars = Inr bars'
                   \<and> length bars' = length ?bars"
    using Cons.prems by (intro Cons.IH) simp_all
  ultimately show ?case by simp
qed

subsection \<open>Facts about the CO2 wait loop\<close>

lemma co2_wait_frame:
  "co2_wait d e blocking wait_time t0 w = Some w' \<Longrightarrow>
     w' = w\<lparr>ticks := ticks w', polls := polls w', trace := trace w',
            watchdog_fill := watchdog_fill w', status_color := status_color w',
            status_text := status_text w'\<rparr>"
proof (induction rule: co2_wait.raw_induct [rotated 1, consumes 1])
  case (1 co2_wait d e blocking wait_time t0 w w')
  show ?case
  proof (cases "\<not> blocking \<or> data_available e (polls w)
                  \<or> \<not> t0 - monotonic e (ticks w) < wait_time")
    case True
    with 1(2) show ?thesis by (auto split: if_splits)
  next
    case False
    with 1(2) have "co2_wait d e blocking wait_time t0
          (flash_status (interpret_text d (TRANSLATE w) ''WARMUP'') 0.5
             (w\<lparr>polls := polls w + 1, ticks := ticks w + 1,
                watchdog_fill := Some RED\<rparr>)) = Some w'"
      by (simp split: if_splits)
    from 1(1) [OF this] show ?thesis
      by (simp add: flash_status_def)
  qed
qed

lemma co2_wait_exit_contradiction:
  "co2_wait d e blocking wait_time t0 w = Some w' \<Longrightarrow>
     blocking \<Longrightarrow> (\<forall>k\<ge>polls w. \<not> data_available e k) \<Longrightarrow>
     (\<forall>k\<ge>ticks w. t0 - monotonic e k < wait_time) \<Longrightarrow> False"
proof (induction rule: co2_wait.raw_induct [rotated 1, consumes 1])
  case (1 co2_wait d e blocking wait_time t0 w w')
  let ?w = "flash_status (interpret_text d (TRANSLATE w) ''WARMUP'') 0.5
             (w\<lparr>polls := polls w + 1, ticks := ticks w + 1,
                watchdog_fill := Some RED\<rparr>)"
  from 1(2-) have "co2_wait d e blocking wait_time t0 ?w = Some w'"
    by (simp split: if_splits)
  moreover have "\<forall>k\<ge>polls ?w. \<not> data_available e k"
    using 1(4) by (simp add: flash_status_def)
  moreover have "\<forall>k\<ge>ticks ?w. t0 - monotonic e k < wait_time"
    using 1(5) by (simp add: flash_status_def)
  ultimately show ?case using 1(1) 1(3) by blast
qed

lemma co2_wait_never_exits:
  assumes "blocking" and "\<forall>k\<ge>polls w. \<not> data_available e k"
    and "\<forall>k\<ge>ticks w. t0 - monotonic e k < wait_time"
  shows "co2_wait d e blocking wait_time t0 w = None"
proof (cases "co2_wait d e blocking wait_time t0 w")
  case None
  then show ?thesis .
next
  case (Some w')
  from co2_wait_exit_contradiction [OF Some assms] show ?thesis ..
qed

text \<open>
  With a clock that never runs backwards the difference \<open>t0 - now\<close> is never
  positive, so for a positive \<open>wait_time\<close> the loop condition never fails on
  its time limit.
\<close>

lemma update_co2_blocking_no_data_diverges:
  assumes "co2_sensor_exists d" and "0 < wait_time"
    and "\<forall>k\<ge>polls w. \<not> data_available e k"
    and "\<forall>k\<ge>ticks w. monotonic e (ticks w) \<le> monotonic e k"
  shows "update_co2_image_frame d e True wait_time w = None"
proof -
  have "co2_wait d e True wait_time (monotonic e (ticks w)) (w\<lparr>ticks := ticks w + 1\<rparr>) = None"
  proof (rule co2_wait_never_exits)
    show "\<forall>k\<ge>polls (w\<lparr>ticks := ticks w + 1\<rparr>). \<not> data_available e k"
      using assms(3) by simp
    show "\<forall>k\<ge>ticks (w\<lparr>ticks := ticks w + 1\<rparr>). monotonic e (ticks w) - monotonic e k < wait_time"
    proof (intro allI impI)
      fix k assume "ticks (w\<lparr>ticks := ticks w + 1\<rparr>) \<le> k"
      then have "monotonic e (ticks w) \<le> monotonic e k" using assms(4) by simp
      with assms(2) show "monotonic e (ticks w) - monotonic e k < wait_time" by linarith
    qed
  qed simp
  with assms(1) show ?thesis by (simp add: update_co2_image_frame_def)
qed

subsection \<open>Facts about \<open>str\<close> and \<open>float\<close>\<close>












subsection \<open>Facts about the sampling loop\<close>

lemma sample_loop_closed_form:
  assumes "\<forall>j<m. monotonic e (ticks w + j) - time_start \<le> 2.3"
    and "2.3 < monotonic e (ticks w + m) - time_start"
  shows "sample_loop e time_start acc w =
           Some (acc @ List.map_filter (pm25_read e) [reads w..<reads w + m],
                 w\<lparr>ticks := ticks w + m + 1, reads := reads w + m,
                   trace := trace w @ map (sample_event e) [reads w..<reads w + m]\<rparr>)"
  using assms
proof (induction m arbitrary: w acc)
  case 0
  then show ?case
    by (subst sample_loop.simps) simp
next
  case (Suc m)
  from Suc.prems(1) have now: "monotonic e (ticks w) - time_start \<le> 2.3"
    by (metis add.right_neutral zero_less_Suc)
  let ?ev = "sample_event e (reads w)"
  let ?w = "w\<lparr>ticks := ticks w + 1, reads := reads w + 1, trace := trace w @ [?ev]\<rparr>"
  let ?acc = "acc @ (case pm25_read e (reads w) of Some v \<Rightarrow> [v] | None \<Rightarrow> [])"
  have step: "sample_loop e time_start acc w = sample_loop e time_start ?acc ?w"
    using now by (subst sample_loop.simps) (simp add: sample_event_def split: option.splits)
  have a: "\<forall>j<m. monotonic e (ticks ?w + j) - time_start \<le> 2.3"
    using Suc.prems(1) by (auto simp: less_Suc_eq_0_disj)
  have b: "2.3 < monotonic e (ticks ?w + m) - time_start"
    using Suc.prems(2) by simp
  have upt: "[reads w..<reads w + Suc m] = reads w # [reads w + 1..<reads w + 1 + m]"
    by (simp add: upt_conv_Cons)
  show ?case
    unfolding step Suc.IH [OF a b] upt
    by (simp split: option.splits)
qed


lemma foldl_add_sum_list: "foldl (+) a xs = a + sum_list (xs :: int list)"
  by (induction xs arbitrary: a) simp_all

lemma average_nonempty:
  "aq_samples \<noteq> [] \<Longrightarrow>
     average aq_samples = Inr (real_of_int (sum_list aq_samples) / real (length aq_samples))"
  by (simp add: average_def foldl_add_sum_list)

lemma average_empty: "average [] = Inl ZeroDivisionError"
  by (simp add: average_def)

text \<open>
  The whole of \<open>sample_aq_sensor\<close>, when the clock readings of the first
  \<open>m\<close> evaluations of the loop condition lie inside the window and the next
  one lies beyond it.
\<close>

lemma sample_aq_sensor_result:
  assumes "\<forall>j<m. monotonic e (ticks w + 1 + j) - monotonic e (ticks w) \<le> 2.3"
    and "2.3 < monotonic e (ticks w + 1 + m) - monotonic e (ticks w)"
  shows "sample_aq_sensor e w =
           Some (case average (List.map_filter (pm25_read e) [reads w..<reads w + m]) of
                   Inl err \<Rightarrow> Inl err
                 | Inr aq_reading \<Rightarrow>
                     Inr (aq_reading,
                          w\<lparr>ticks := ticks w + m + 2, reads := reads w + m,
                            trace := trace w @ map (sample_event e) [reads w..<reads w + m]\<rparr>))"
proof -
  let ?start = "w\<lparr>ticks := ticks w + 1\<rparr>"
  have a: "\<forall>j<m. monotonic e (ticks ?start + j) - monotonic e (ticks w) \<le> 2.3"
    using assms(1) by simp
  have b: "2.3 < monotonic e (ticks ?start + m) - monotonic e (ticks w)"
    using assms(2) by simp
  show ?thesis
    unfolding sample_aq_sensor_def Let_def sample_loop_closed_form [OF a b]
    by (simp split: sum.splits)
qed
subsection \<open>Facts about the two acquisition bodies\<close>

lemma co2_acquire_overrange:
  assumes "co2_ppm_to_quality d (py_round (scd_CO2 e (polls w))) = (valid, q, col, label)"
    and "6000 \<le> q"
  shows "co2_acquire d e w = Inl NameError"
  using assms by (simp add: co2_acquire_def Let_def)


lemma aqi_acquire_result:
  assumes cls: "concentration_to_aqi d sensor_pm25 = (flag, aqi, col, label)"
    and chart: "aqi_trend_chart w \<noteq> []"
    and bars: "length (aqi_trend_chart w) \<le> length (aqi_trend_group w)"
  shows "\<exists>w'. aqi_acquire d sensor_pm25 w = Inr (True, w')
           \<and> aqi_trend_chart w' = tl (aqi_trend_chart w) @ [real_of_int aqi / 500]
           \<and> length (aqi_trend_group w') = length (aqi_trend_group w)
           \<and> aqi_value_text w' = str_int aqi
           \<and> (500 \<le> aqi \<longrightarrow>
                 aqi_pointer_fill w' = Some RED \<and> aqi_pointer_y w' = 0
                 \<and> aqi_pointer_shadow_y w' = 0
                 \<and> trace w' = trace w @ [Status (interpret_text d (TRANSLATE w) ''OVERRANGE''),
                                        Sleep 0.75, Sleep 0.75])"
proof -
  obtain bars' where d: "draw_trend (HEIGHT d) PURPLE (length (aqi_trend_chart w)) 0
       (aqi_trend_chart w) (aqi_trend_group w) = Inr bars'"
    and l: "length bars' = length (aqi_trend_group w)"
    using draw_trend_ok [of 0 "aqi_trend_chart w" "length (aqi_trend_chart w)" "aqi_trend_group w"]
      bars by auto
  show ?thesis
    by (simp add: aqi_acquire_def Let_def cls d l trend_push_nonempty [OF chart]
        flash_status_def)
qed

lemma aqi_acquire_flag: "aqi_acquire d sensor_pm25 w = Inr (valid, w') \<Longrightarrow> valid"
  by (auto simp: aqi_acquire_def Let_def split: prod.splits sum.splits)

text \<open>Evaluation of the concrete classifiers and texts used below.\<close>

lemma py_round_of_int: "py_round (real_of_int n) = n"
  by (simp add: py_round_def)



subsection \<open>Facts about the alarm and battery steps\<close>




subsection \<open>Facts about the concrete environments\<close>

lemma no_data_env_sample:
  "sample_aq_sensor (no_data_env real) (init_world d temp_unit translate n)
     = Some (Inl ZeroDivisionError)"
proof -
  let ?e = "no_data_env real"
  let ?w = "init_world d temp_unit translate n"
  have a: "\<forall>j<2. monotonic ?e (ticks ?w + 1 + j) - monotonic ?e (ticks ?w) \<le> 2.3"
    by (auto simp: no_data_env_def init_world_def)
  have b: "2.3 < monotonic ?e (ticks ?w + 1 + 2) - monotonic ?e (ticks ?w)"
    by (simp add: no_data_env_def init_world_def)
  have "List.map_filter (pm25_read ?e) [reads ?w..<reads ?w + 2] = []"
    by (simp add: no_data_env_def List.map_filter_def)
  with sample_aq_sensor_result [OF a b] show ?thesis
    by (simp add: average_empty)
qed

lemma demo_env_window:
  "\<forall>j<4. monotonic (demo_env ppm) (ticks (init_world d temp_unit translate n) + 1 + j)
           - monotonic (demo_env ppm) (ticks (init_world d temp_unit translate n)) \<le> 2.3"
  "2.3 < monotonic (demo_env ppm) (ticks (init_world d temp_unit translate n) + 1 + 4)
           - monotonic (demo_env ppm) (ticks (init_world d temp_unit translate n))"
  by (auto simp: demo_env_def init_world_def)

lemma upt_0_4: "[0..<4] = [0, 1, 2, 3::nat]"
  by (simp add: upt_rec)

lemma demo_env_reads:
  "List.map_filter (pm25_read (demo_env ppm))
     [reads (init_world d temp_unit translate n)..<reads (init_world d temp_unit translate n) + 4]
     = [10, 20, 30]"
  by (simp add: init_world_def upt_0_4 demo_env_def List.map_filter_def)

lemma demo_env_events:
  "map (sample_event (demo_env ppm)) [0..<4]
     = [Sleep 1, Print ''Unable to read from sensor, retrying...'', Sleep 1, Sleep 1]"
  by (simp add: upt_0_4 demo_env_def sample_event_def)

lemma demo_env_sample:
  "sample_aq_sensor (demo_env ppm) (init_world d temp_unit translate n)
     = Some (Inr (20, (init_world d temp_unit translate n)
               \<lparr>ticks := 6, reads := 4,
                 trace := [Sleep 1, Print ''Unable to read from sensor, retrying...'',
                           Sleep 1, Sleep 1]\<rparr>))"
proof -
  let ?e = "demo_env ppm"
  let ?init = "init_world d temp_unit translate n"
  have avg: "average [10, 20, 30] = Inr 20" by (simp add: average_def)
  have r: "reads ?init = 0" and t: "ticks ?init = 0" and tr: "trace ?init = []"
    by (simp_all add: init_world_def)
  have "sample_aq_sensor ?e ?init =
          Some (Inr (20, ?init\<lparr>ticks := ticks ?init + 4 + 2, reads := reads ?init + 4,
                  trace := trace ?init @ map (sample_event ?e) [reads ?init..<reads ?init + 4]\<rparr>))"
    using sample_aq_sensor_result [OF demo_env_window, of ppm d temp_unit translate n]
    by (simp only: demo_env_reads avg sum.case)
  then show ?thesis
    by (simp add: r t tr demo_env_events)
qed

subsection \<open>C1: a CO2 poll that finds no data\<close>

text \<open>
  Claim C1 says that a call with the sensor present and no data available
  returns \<open>valid = false\<close>.  The flag is initialised to \<open>True\<close> and only
  assigned inside \<^verbatim>\<open>if scd.data_available:\<close>, so such a call returns
  \<open>True\<close>: here a non-blocking call on the freshly built display state.
\<close>

theorem co2_no_data_valid_flag_counterexample:
  "\<not> data_available (no_data_env real) 0
   \<and> update_co2_image_frame demo_platform (no_data_env real) False 3
        (init_world demo_platform ''C'' False 2)
      = Some (Inr (True, (init_world demo_platform ''C'' False 2)\<lparr>ticks := 1, polls := 1\<rparr>))"
  by (simp add: update_co2_image_frame_def co2_wait.simps no_data_env_def demo_platform_def
      init_world_def)

text \<open>
  Claim C1, amended.  When the CO2 sensor exists, the wait loop has ended
  (at once for a non-blocking call) and the poll after it finds no data,
  \<open>update_co2_image_frame\<close> returns \<open>True\<close>, the initial value of its flag.
  The state it leaves differs from the one it was called in at most in the
  counters of clock and sensor polls, the trace, the watchdog colour and the
  status label, which only the wait loop of a blocking call touches: the
  CO2 labels, the pointer, the trend chart and its bars are unchanged.
\<close>

theorem co2_no_data_returns_true_display_unchanged:
  assumes "co2_sensor_exists d"
    and "co2_wait d e blocking wait_time (monotonic e (ticks w)) (w\<lparr>ticks := ticks w + 1\<rparr>)
           = Some w1"
    and "\<not> data_available e (polls w1)"
  shows "update_co2_image_frame d e blocking wait_time w
           = Some (Inr (True, w1\<lparr>polls := polls w1 + 1\<rparr>))
       \<and> w1 = w\<lparr>ticks := ticks w1, polls := polls w1, trace := trace w1,
                watchdog_fill := watchdog_fill w1, status_color := status_color w1,
                status_text := status_text w1\<rparr>
       \<and> co2_value_text w1 = co2_value_text w
       \<and> co2_humid_text w1 = co2_humid_text w
       \<and> co2_temp_text w1 = co2_temp_text w
       \<and> co2_qual_text w1 = co2_qual_text w
       \<and> co2_pointer_y w1 = co2_pointer_y w
       \<and> co2_trend_chart w1 = co2_trend_chart w
       \<and> co2_trend_group w1 = co2_trend_group w
       \<and> (\<not> blocking \<longrightarrow> w1 = w\<lparr>ticks := ticks w + 1\<rparr>)"
proof -
  let ?start = "w\<lparr>ticks := ticks w + 1\<rparr>"
  have ret: "update_co2_image_frame d e blocking wait_time w
               = Some (Inr (True, w1\<lparr>polls := polls w1 + 1\<rparr>))"
    using assms by (simp add: update_co2_image_frame_def)
  have frame: "w1 = ?start\<lparr>ticks := ticks w1, polls := polls w1, trace := trace w1,
                watchdog_fill := watchdog_fill w1, status_color := status_color w1,
                status_text := status_text w1\<rparr>"
    by (rule co2_wait_frame [OF assms(2)])
  then have eq: "w1 = w\<lparr>ticks := ticks w1, polls := polls w1, trace := trace w1,
                watchdog_fill := watchdog_fill w1, status_color := status_color w1,
                status_text := status_text w1\<rparr>"
    by simp
  have f1: "co2_value_text w1 = co2_value_text w" by (subst eq) simp
  have f2: "co2_humid_text w1 = co2_humid_text w" by (subst eq) simp
  have f3: "co2_temp_text w1 = co2_temp_text w" by (subst eq) simp
  have f4: "co2_qual_text w1 = co2_qual_text w" by (subst eq) simp
  have f5: "co2_pointer_y w1 = co2_pointer_y w" by (subst eq) simp
  have f6: "co2_trend_chart w1 = co2_trend_chart w" by (subst eq) simp
  have f7: "co2_trend_group w1 = co2_trend_group w" by (subst eq) simp
  have nb: "\<not> blocking \<longrightarrow> w1 = ?start"
    using assms(2) by (subst (asm) co2_wait.simps) auto
  from ret eq f1 f2 f3 f4 f5 f6 f7 nb show ?thesis by blast
qed

theorem co2_no_data_returns_true_display_unchanged_witness:
  "co2_sensor_exists demo_platform
   \<and> co2_wait demo_platform (no_data_env (\<lambda>k. 5)) True 0 5
        ((init_world demo_platform ''F'' True 3)\<lparr>ticks := 1\<rparr>)
      = Some ((init_world demo_platform ''F'' True 3)\<lparr>ticks := 2, polls := 1\<rparr>)
   \<and> \<not> data_available (no_data_env (\<lambda>k. 5)) 1
   \<and> update_co2_image_frame demo_platform (no_data_env (\<lambda>k. 5)) True 0
        (init_world demo_platform ''F'' True 3)
      = Some (Inr (True, (init_world demo_platform ''F'' True 3)\<lparr>ticks := 2, polls := 2\<rparr>))"
proof -
  let ?w = "init_world demo_platform ''F'' True 3"
  let ?e = "no_data_env (\<lambda>k. 5)"
  have s: "co2_sensor_exists demo_platform" by (simp add: demo_platform_def)
  have w: "co2_wait demo_platform ?e True 0 (monotonic ?e (ticks ?w)) (?w\<lparr>ticks := ticks ?w + 1\<rparr>)
             = Some (?w\<lparr>ticks := 2, polls := 1\<rparr>)"
    by (subst co2_wait.simps) (simp add: no_data_env_def init_world_def)
  have n: "\<not> data_available ?e (polls (?w\<lparr>ticks := 2, polls := 1\<rparr>))"
    by (simp add: no_data_env_def)
  from co2_no_data_returns_true_display_unchanged [OF s w n] s w n show ?thesis
    by (simp add: no_data_env_def init_world_def)
qed

subsection \<open>C2: the blocking wait\<close>

text \<open>
  Claim C2 says that the blocking wait ends after at most \<open>wait_time\<close>
  seconds.  The loop compares \<open>t0 - time.monotonic()\<close>, which is never
  positive, with \<open>wait_time\<close>: with the default of 3 seconds the time limit
  never ends the loop.  On a clock that advances one second per reading and
  a sensor that never has data, the blocking call does not return.
\<close>

theorem co2_blocking_wait_never_times_out:
  "update_co2_image_frame demo_platform (no_data_env real) True 3
     (init_world demo_platform ''C'' False 3) = None"
proof (rule update_co2_blocking_no_data_diverges)
  show "co2_sensor_exists demo_platform" by (simp add: demo_platform_def)
  show "(0::real) < 3" by simp
  show "\<forall>k\<ge>polls (init_world demo_platform ''C'' False 3).
          \<not> data_available (no_data_env real) k"
    by (simp add: no_data_env_def)
  show "\<forall>k\<ge>ticks (init_world demo_platform ''C'' False 3).
          monotonic (no_data_env real) (ticks (init_world demo_platform ''C'' False 3))
            \<le> monotonic (no_data_env real) k"
    by (simp add: no_data_env_def init_world_def)
qed

subsection \<open>C3: a sampling window without a sample\<close>

text \<open>
  Claim C3 asks for a dedicated error when the window yields no sample.
  The function has no guard: with every read failing, the list of samples
  is empty when the window closes and the unguarded division
  \<^verbatim>\<open>aq_reading / len(aq_samples)\<close> raises Python's \<open>ZeroDivisionError\<close>.
\<close>

theorem sample_aq_sensor_no_sample_zero_division:
  "sample_aq_sensor (no_data_env real) (init_world demo_platform ''C'' False 3)
     = Some (Inl ZeroDivisionError)"
  by (rule no_data_env_sample)

subsection \<open>C4: the sampling window and its mean\<close>

text \<open>
  Claim C4.  Let the clock readings of the first \<open>m\<close> evaluations of the
  loop condition lie within 2.3 seconds of the start reading and the next
  one beyond: the window holds exactly \<open>m\<close> reads.  If at least one of them
  succeeds, \<open>sample_aq_sensor\<close> returns the arithmetic mean of the values
  read successfully, in the order read.  The trace gains one entry per
  read, in order (\<open>sample_event\<close>): the one-second sleep after a sample, and
  for a failed read only the printed message, with no sleep and no sample,
  after which the later reads of the window still take place.  Nothing else
  of the state changes but the counters.
\<close>

theorem sample_aq_sensor_window_mean:
  assumes "\<forall>j<m. monotonic e (ticks w + 1 + j) - monotonic e (ticks w) \<le> 2.3"
    and "2.3 < monotonic e (ticks w + 1 + m) - monotonic e (ticks w)"
    and "List.map_filter (pm25_read e) [reads w..<reads w + m] = good"
    and "good \<noteq> []"
  shows "sample_aq_sensor e w =
           Some (Inr (real_of_int (sum_list good) / real (length good),
                      w\<lparr>ticks := ticks w + m + 2, reads := reads w + m,
                        trace := trace w @ map (sample_event e) [reads w..<reads w + m]\<rparr>))"
  using sample_aq_sensor_result [OF assms(1,2)] assms(3,4)
  by (simp add: average_nonempty)

theorem sample_aq_sensor_window_mean_witness:
  "monotonic (demo_env 400) 1 - monotonic (demo_env 400) 0 \<le> 2.3
   \<and> monotonic (demo_env 400) 2 - monotonic (demo_env 400) 0 \<le> 2.3
   \<and> monotonic (demo_env 400) 3 - monotonic (demo_env 400) 0 \<le> 2.3
   \<and> monotonic (demo_env 400) 4 - monotonic (demo_env 400) 0 \<le> 2.3
   \<and> 2.3 < monotonic (demo_env 400) (ticks (init_world demo_platform ''C'' False 3) + 1 + 4)
            - monotonic (demo_env 400) (ticks (init_world demo_platform ''C'' False 3))
   \<and> List.map_filter (pm25_read (demo_env 400))
        [reads (init_world demo_platform ''C'' False 3)..<
         reads (init_world demo_platform ''C'' False 3) + 4] = [10, 20, 30]
   \<and> sample_aq_sensor (demo_env 400) (init_world demo_platform ''C'' False 3) =
        Some (Inr (20, (init_world demo_platform ''C'' False 3)
                \<lparr>ticks := 6, reads := 4,
                  trace := [Sleep 1, Print ''Unable to read from sensor, retrying...'',
                            Sleep 1, Sleep 1]\<rparr>))"
proof -
  let ?e = "demo_env 400"
  let ?w = "init_world demo_platform ''C'' False 3"
  have r: "reads ?w = 0" and t: "ticks ?w = 0" and tr: "trace ?w = []"
    by (simp_all add: init_world_def)
  have c: "List.map_filter (pm25_read ?e) [reads ?w..<reads ?w + 4] = [10, 20, 30]"
    by (rule demo_env_reads)
  have d: "[10, 20, 30] \<noteq> ([] :: int list)" by simp
  have w: "monotonic ?e 1 - monotonic ?e 0 \<le> 2.3" "monotonic ?e 2 - monotonic ?e 0 \<le> 2.3"
    "monotonic ?e 3 - monotonic ?e 0 \<le> 2.3" "monotonic ?e 4 - monotonic ?e 0 \<le> 2.3"
    by (simp_all add: demo_env_def)
  from sample_aq_sensor_window_mean [OF demo_env_window c d] w demo_env_window(2) [of 400 demo_platform "''C''" False 3] c
  show ?thesis
    by (simp add: demo_env_events t tr r)
qed

subsection \<open>C5: the trend buffers\<close>

text \<open>
  Claim C5.  Starting from a filled trend chart of length \<open>N\<close> (\<open>N > 0\<close>),
  any sequence of pushes succeeds and leaves the length at exactly \<open>N\<close>; the
  chart then holds the last \<open>N\<close> elements of the old contents followed by the
  pushed values, and once at least \<open>N\<close> values were pushed it is exactly the
  \<open>N\<close> most recent values in arrival order.  The CO2 and the particulate
  chart are updated by the same operation \<open>trend_push\<close>.
\<close>

theorem trend_buffer_fixed_length_most_recent:
  assumes "chart \<noteq> []"
  shows "\<exists>chart'. trend_pushes vs chart = Inr chart'
           \<and> length chart' = length chart
           \<and> chart' = drop (length vs) (chart @ vs)
           \<and> (length chart \<le> length vs \<longrightarrow>
                chart' = drop (length vs - length chart) vs)"
  using assms by (simp add: trend_pushes_drop)

theorem trend_buffer_fixed_length_most_recent_witness:
  "[128, 128, 128] \<noteq> ([] :: real list)
   \<and> trend_pushes [1/10, 2/10, 3/10, 4/10] [128, 128, 128] = Inr [2/10, 3/10, 4/10]"
  using trend_buffer_fixed_length_most_recent [of "[128, 128, 128]" "[1/10, 2/10, 3/10, 4/10]"]
  by simp

subsection \<open>C6: the values pushed into the trend charts\<close>




subsection \<open>C7: the CO2 alarm\<close>



subsection \<open>C8: a CO2 reading at or above the scale maximum\<close>

text \<open>
  Claim C8 says that the cycle of a reading of 6000 ppm or more completes
  with the pointer pinned and an overrange warning flashed.  The branch
  for such readings contains the misspelt name \<open>co2_poointer_shadow\<close>; the
  assignment raises \<open>NameError\<close> before the pointer is moved, the warning
  flashed or a value returned.  Here for a reading of 6500 ppm and a
  classifier that returns the reading as it is.
\<close>

theorem co2_overrange_raises_name_error:
  "update_co2_image_frame demo_platform (demo_env 6500) False 3
     (init_world demo_platform ''C'' False 3) = Some (Inl NameError)"
proof -
  let ?w = "init_world demo_platform ''C'' False 3"
  have r: "py_round (real_of_int 6500) = 6500" by (rule py_round_of_int)
  have "co2_acquire demo_platform (demo_env 6500) (?w\<lparr>ticks := 1, polls := 1\<rparr>) = Inl NameError"
    by (rule co2_acquire_overrange [where q = 6500 and valid = True and col = YELLOW
          and label = "''POOR''"])
       (use r in \<open>simp_all add: demo_platform_def demo_env_def\<close>)
  then show ?thesis
    by (simp add: update_co2_image_frame_def co2_wait.simps demo_platform_def demo_env_def
        init_world_def)
qed

subsection \<open>C9: the battery check\<close>



subsection \<open>C10: the flag returned by \<open>update_aqi_image_frame\<close>\<close>

text \<open>
  Claim C10 says that every execution path of \<open>update_aqi_image_frame\<close>,
  sampling failures included, returns \<open>True\<close>.  When every read of the window
  fails, \<open>sample_aq_sensor\<close> raises and the function returns nothing.
\<close>

theorem update_aqi_all_reads_fail_counterexample:
  "update_aqi_image_frame demo_platform (no_data_env real) False 3
     (init_world demo_platform ''C'' False 3) = Some (Inl ZeroDivisionError)"
  by (simp add: update_aqi_image_frame_def no_data_env_sample)
     (simp add: demo_platform_def)

text \<open>
  Claim C10, amended.  Whenever \<open>update_aqi_image_frame\<close> returns, it returns
  \<open>True\<close>: its flag is initialised to \<open>True\<close> and never assigned.  Without
  the sensor it returns \<open>True\<close> at once and changes nothing; with the sensor
  it returns \<open>True\<close>, in range or out of range, whenever the sampling
  returned a mean (and the chart is filled, with a bar for each point).  No
  path returns \<open>False\<close>, so the particulate channel cannot report invalid
  sensor data.
\<close>

theorem update_aqi_returns_only_true:
  "(\<not> aqi_sensor_exists d \<longrightarrow>
      update_aqi_image_frame d e blocking wait_time w = Some (Inr (True, w)))
   \<and> (update_aqi_image_frame d e blocking wait_time w = Some (Inr (valid, w')) \<longrightarrow> valid)
   \<and> (aqi_sensor_exists d \<and> sample_aq_sensor e w = Some (Inr (sensor_pm25, w1))
        \<and> aqi_trend_chart w1 \<noteq> []
        \<and> length (aqi_trend_chart w1) \<le> length (aqi_trend_group w1)
      \<longrightarrow> (\<exists>w2. update_aqi_image_frame d e blocking wait_time w = Some (Inr (True, w2))))"
proof (intro conjI impI)
  assume "\<not> aqi_sensor_exists d"
  then show "update_aqi_image_frame d e blocking wait_time w = Some (Inr (True, w))"
    by (simp add: update_aqi_image_frame_def)
next
  assume r: "update_aqi_image_frame d e blocking wait_time w = Some (Inr (valid, w'))"
  show valid
  proof (cases "aqi_sensor_exists d")
    case False
    with r show ?thesis by (simp add: update_aqi_image_frame_def)
  next
    case True
    with r obtain pm w1 where "aqi_acquire d pm w1 = Inr (valid, w')"
      by (auto simp: update_aqi_image_frame_def split: option.splits sum.splits prod.splits)
    then show ?thesis by (rule aqi_acquire_flag)
  qed
next
  assume a: "aqi_sensor_exists d \<and> sample_aq_sensor e w = Some (Inr (sensor_pm25, w1))
        \<and> aqi_trend_chart w1 \<noteq> []
        \<and> length (aqi_trend_chart w1) \<le> length (aqi_trend_group w1)"
  obtain flag aqi col label where cls: "concentration_to_aqi d sensor_pm25 = (flag, aqi, col, label)"
    by (cases "concentration_to_aqi d sensor_pm25") auto
  from a aqi_acquire_result [OF cls, of w1]
  obtain w2 where "aqi_acquire d sensor_pm25 w1 = Inr (True, w2)" by blast
  with a show "\<exists>w2. update_aqi_image_frame d e blocking wait_time w = Some (Inr (True, w2))"
    by (simp add: update_aqi_image_frame_def)
qed

text \<open>
  A board without the particulate sensor; and the board with both sensors in
  the environment that delivers the samples 10, 20 and 30.
\<close>

theorem update_aqi_returns_only_true_witness:
  "\<not> aqi_sensor_exists (demo_platform\<lparr>aqi_sensor_exists := False\<rparr>)
   \<and> update_aqi_image_frame (demo_platform\<lparr>aqi_sensor_exists := False\<rparr>) (demo_env 400) False 3
        (init_world demo_platform ''C'' False 3)
      = Some (Inr (True, init_world demo_platform ''C'' False 3))
   \<and> aqi_sensor_exists demo_platform
   \<and> sample_aq_sensor (demo_env 400) (init_world demo_platform ''C'' False 3)
      = Some (Inr (20, (init_world demo_platform ''C'' False 3)
                \<lparr>ticks := 6, reads := 4,
                  trace := [Sleep 1, Print ''Unable to read from sensor, retrying...'',
                            Sleep 1, Sleep 1]\<rparr>))
   \<and> (\<exists>w2. update_aqi_image_frame demo_platform (demo_env 400) False 3
               (init_world demo_platform ''C'' False 3) = Some (Inr (True, w2)))"
proof -
  let ?init = "init_world demo_platform ''C'' False 3"
  let ?e = "demo_env 400"
  let ?next = "?init\<lparr>ticks := 6, reads := 4,
                  trace := [Sleep 1, Print ''Unable to read from sensor, retrying...'',
                            Sleep 1, Sleep 1]\<rparr>"
  have n: "\<not> aqi_sensor_exists (demo_platform\<lparr>aqi_sensor_exists := False\<rparr>)" by simp
  have x: "aqi_sensor_exists demo_platform" by (simp add: demo_platform_def)
  have s: "sample_aq_sensor ?e ?init = Some (Inr (20, ?next))"
    by (rule demo_env_sample)
  have c: "aqi_trend_chart ?next \<noteq> []"
    "length (aqi_trend_chart ?next) \<le> length (aqi_trend_group ?next)"
    by (simp_all add: init_world_def)
  from update_aqi_returns_only_true [where d = "demo_platform\<lparr>aqi_sensor_exists := False\<rparr>"
      and e = ?e and blocking = False and wait_time = 3 and w = ?init] n
  have a: "update_aqi_image_frame (demo_platform\<lparr>aqi_sensor_exists := False\<rparr>) ?e False 3 ?init
             = Some (Inr (True, ?init))"
    by blast
  from update_aqi_returns_only_true [where d = demo_platform and e = ?e and blocking = False
      and wait_time = 3 and w = ?init and ?sensor_pm25.0 = 20 and ?w1.0 = ?next] x s c
  have b: "\<exists>w2. update_aqi_image_frame demo_platform ?e False 3 ?init = Some (Inr (True, w2))"
    by blast
  from n a x s b show ?thesis by blast
qed

end
